theory Spec2Isabelle
  imports Main "HOL-Library.Word"
begin

unbundle bit_operations_syntax

section \<open>NEC PC-8500 driver (pc8401a.cpp): data model\<close>

text \<open>
  The driver class \<open>pc8401a_state\<close> is embedded as a record. Its own members keep their
  names. The collaborators it calls into are embedded by what the driver does to them:
  the program address space by the handler installed at each CPU address, the memory banks
  by their configured entries and current entry, the main CPU by the list of input-line
  calls it has received, the RTC by its input lines, and \<open>logerror\<close> by the list of
  messages written. \<open>m_ram_size\<close> is what \<open>m_ram->size()\<close> returns, the size of the RAM
  device in bytes: 65536 for the default \<open>"64K"\<close>, 98304 for the option \<open>"96K"\<close>.
\<close>

type_synonym uint8_t = "8 word"
type_synonym uint32_t = "32 word"
type_synonym offs_t = "32 word"
type_synonym address = "16 word"

text \<open>A memory region is a byte buffer; \<open>memregion\<close> returns a null pointer when there is none.\<close>

type_synonym memory_region = "uint8_t list"

text \<open>The four banks of the address map \<open>pc8401a_mem\<close>.\<close>

datatype bank_id = bank1 | bank3 | bank4 | bank5

text \<open>What an access to a CPU address is routed to.\<close>

datatype handler = Unmapped | Bank bank_id

record address_space =
  read_handler :: "address \<Rightarrow> handler"
  write_handler :: "address \<Rightarrow> handler"

text \<open>The buffers a bank entry can point into, and a pointer as buffer plus byte offset.\<close>

datatype buffer = Z80_ROM | MAIN_RAM | CART_ROM | CRT_RAM

type_synonym pointer = "buffer \<times> nat"

record memory_bank =
  entries :: "nat \<Rightarrow> pointer option"
  curentry :: nat

datatype input_line = INPUT_LINE_IRQ0

datatype line_state = CLEAR_LINE | ASSERT_LINE

datatype cpu_call =
    Set_input_line input_line line_state
  | Set_input_line_and_vector input_line line_state uint8_t

record upd1990a_lines =
  cs :: bool
  c0 :: bool
  c1 :: bool
  c2 :: bool
  data_in :: bool
  oe :: bool
  stb :: bool
  clk :: bool

record pc8401a_state =
  m_key_strobe :: int
  m_mmr :: uint8_t
  m_io_addr :: uint32_t
  m_key_latch :: uint8_t
  m_key_irq_enable :: bool
  m_cart_rom :: "memory_region option"
  program :: address_space
  membank :: "bank_id \<Rightarrow> memory_bank"
  m_maincpu :: "cpu_call list"
  m_rtc :: upd1990a_lines
  m_ram_size :: nat
  errorlog :: "string list"

section \<open>Collaborator operations used by the driver\<close>

definition in_range :: "address \<Rightarrow> address \<Rightarrow> address \<Rightarrow> bool" where
  "in_range lo hi a = (lo \<le> a \<and> a \<le> hi)"

definition install_read_bank :: "address \<Rightarrow> address \<Rightarrow> bank_id \<Rightarrow> address_space \<Rightarrow> address_space" where
  "install_read_bank lo hi b sp =
     sp\<lparr>read_handler := (\<lambda>a. if in_range lo hi a then Bank b else read_handler sp a)\<rparr>"

definition install_write_bank :: "address \<Rightarrow> address \<Rightarrow> bank_id \<Rightarrow> address_space \<Rightarrow> address_space" where
  "install_write_bank lo hi b sp =
     sp\<lparr>write_handler := (\<lambda>a. if in_range lo hi a then Bank b else write_handler sp a)\<rparr>"

definition install_readwrite_bank :: "address \<Rightarrow> address \<Rightarrow> bank_id \<Rightarrow> address_space \<Rightarrow> address_space" where
  "install_readwrite_bank lo hi b sp = install_write_bank lo hi b (install_read_bank lo hi b sp)"

definition unmap_read :: "address \<Rightarrow> address \<Rightarrow> address_space \<Rightarrow> address_space" where
  "unmap_read lo hi sp =
     sp\<lparr>read_handler := (\<lambda>a. if in_range lo hi a then Unmapped else read_handler sp a)\<rparr>"

definition unmap_write :: "address \<Rightarrow> address \<Rightarrow> address_space \<Rightarrow> address_space" where
  "unmap_write lo hi sp =
     sp\<lparr>write_handler := (\<lambda>a. if in_range lo hi a then Unmapped else write_handler sp a)\<rparr>"

definition unmap_readwrite :: "address \<Rightarrow> address \<Rightarrow> address_space \<Rightarrow> address_space" where
  "unmap_readwrite lo hi sp = unmap_write lo hi (unmap_read lo hi sp)"

definition set_entry :: "nat \<Rightarrow> memory_bank \<Rightarrow> memory_bank" where
  "set_entry n b = b\<lparr>curentry := n\<rparr>"

definition configure_entry :: "nat \<Rightarrow> pointer \<Rightarrow> memory_bank \<Rightarrow> memory_bank" where
  "configure_entry n p b = b\<lparr>entries := (entries b)(n \<mapsto> p)\<rparr>"

text \<open>\<open>configure_entries(startentry, numentries, base, stride)\<close>: entry \<open>startentry + i\<close>
  points at \<open>base + i * stride\<close>.\<close>

fun configure_entries :: "nat \<Rightarrow> nat \<Rightarrow> pointer \<Rightarrow> nat \<Rightarrow> memory_bank \<Rightarrow> memory_bank" where
  "configure_entries startentry 0 base stride b = b"
| "configure_entries startentry (Suc n) base stride b =
     configure_entries (Suc startentry) n (fst base, snd base + stride) stride
       (configure_entry startentry base b)"

text \<open>State-passing wrappers: the driver reaches the space and the banks through itself.\<close>

definition on_program :: "(address_space \<Rightarrow> address_space) \<Rightarrow> pc8401a_state \<Rightarrow> pc8401a_state" where
  "on_program f s = s\<lparr>program := f (program s)\<rparr>"

definition on_membank :: "bank_id \<Rightarrow> (memory_bank \<Rightarrow> memory_bank) \<Rightarrow> pc8401a_state \<Rightarrow> pc8401a_state" where
  "on_membank b f s = s\<lparr>membank := (membank s)(b := f (membank s b))\<rparr>"

definition logerror :: "string \<Rightarrow> pc8401a_state \<Rightarrow> pc8401a_state" where
  "logerror msg s = s\<lparr>errorlog := errorlog s @ [msg]\<rparr>"

definition set_input_line :: "input_line \<Rightarrow> line_state \<Rightarrow> pc8401a_state \<Rightarrow> pc8401a_state" where
  "set_input_line l st s = s\<lparr>m_maincpu := m_maincpu s @ [Set_input_line l st]\<rparr>"

definition set_input_line_and_vector ::
  "input_line \<Rightarrow> line_state \<Rightarrow> uint8_t \<Rightarrow> pc8401a_state \<Rightarrow> pc8401a_state" where
  "set_input_line_and_vector l st v s =
     s\<lparr>m_maincpu := m_maincpu s @ [Set_input_line_and_vector l st v]\<rparr>"

text \<open>The level of the IRQ0 line after a list of calls: the level the last call set
  (clear when the CPU has received none).\<close>

fun call_level :: "cpu_call \<Rightarrow> line_state" where
  "call_level (Set_input_line l st) = st"
| "call_level (Set_input_line_and_vector l st v) = st"

definition irq0_level :: "pc8401a_state \<Rightarrow> line_state" where
  "irq0_level s = (if m_maincpu s = [] then CLEAR_LINE else call_level (last (m_maincpu s)))"

text \<open>How many times the CPU has been told to assert IRQ0.\<close>

definition irq0_asserts :: "pc8401a_state \<Rightarrow> nat" where
  "irq0_asserts s = length (filter (\<lambda>c. call_level c = ASSERT_LINE) (m_maincpu s))"

section \<open>Keyboard\<close>

text \<open>The scan loop \<open>for (int row = 0; row < 10; row++)\<close> of \<open>scan_keyboard\<close>, on the local
  \<open>strobe\<close> and the member \<open>m_key_latch\<close>. The argument \<open>m_io_y\<close> gives what each row port
  reads.\<close>

function scan_rows :: "(nat \<Rightarrow> uint8_t) \<Rightarrow> nat \<Rightarrow> int \<times> uint8_t \<Rightarrow> int \<times> uint8_t" where
  "scan_rows m_io_y row (strobe, latch) =
     (if row < 10 then
        (let data = m_io_y row in
          if data \<noteq> 0xff then scan_rows m_io_y (row + 1) (1, data)
          else scan_rows m_io_y (row + 1) (strobe, latch))
      else (strobe, latch))"
  by pat_completeness auto
termination
  by (relation "measure (\<lambda>(m_io_y, row, acc). 10 - row)") auto

definition scan_keyboard :: "(nat \<Rightarrow> uint8_t) \<Rightarrow> pc8401a_state \<Rightarrow> pc8401a_state" where
  "scan_keyboard m_io_y s =
     (if \<not> m_key_irq_enable s then s
      else
        (let (strobe, latch) = scan_rows m_io_y 0 (0, m_key_latch s);
             s1 = s\<lparr>m_key_latch := latch\<rparr>;
             s2 = (if m_key_strobe s1 = 0 \<and> strobe \<noteq> 0
                   then set_input_line_and_vector INPUT_LINE_IRQ0 ASSERT_LINE 0xef s1
                   else s1)
         in if strobe \<noteq> 0 then s2\<lparr>m_key_strobe := strobe\<rparr> else s2))"

definition keyboard_tick :: "(nat \<Rightarrow> uint8_t) \<Rightarrow> pc8401a_state \<Rightarrow> pc8401a_state" where
  "keyboard_tick m_io_y s = scan_keyboard m_io_y s"

text \<open>\<open>return 0x10 | (m_key_strobe & 1)\<close>, computed on \<open>int\<close> and returned as a byte.\<close>

definition port70_r :: "pc8401a_state \<Rightarrow> uint8_t" where
  "port70_r s = word_of_int (0x10 OR (m_key_strobe s AND 1))"

definition port71_r :: "pc8401a_state \<Rightarrow> uint8_t" where
  "port71_r s = m_key_latch s"

definition port70_w :: "uint8_t \<Rightarrow> pc8401a_state \<Rightarrow> pc8401a_state" where
  "port70_w data s = s\<lparr>m_key_strobe := 0\<rparr>"

definition port71_w :: "uint8_t \<Rightarrow> pc8401a_state \<Rightarrow> pc8401a_state" where
  "port71_w data s =
     (let s1 = set_input_line INPUT_LINE_IRQ0 CLEAR_LINE s;
          s2 = (if data = 0x18 \<and> m_key_latch s1 = 0x10 then s1\<lparr>m_key_irq_enable := True\<rparr> else s1)
      in s2\<lparr>m_key_latch := data\<rparr>)"

section \<open>Memory mapping register\<close>

text \<open>\<open>bankswitch\<close> decodes \<open>rombank\<close> (bits 1:0), \<open>ram0000\<close> (bits 3:2) and \<open>ram8000\<close>
  (bits 5:4) of the value and then runs two switches and a test of bit 6, one after the
  other. Each of the three is a function here, in the source's case order.\<close>

definition bankswitch_low :: "uint8_t \<Rightarrow> pc8401a_state \<Rightarrow> pc8401a_state" where
  "bankswitch_low data s =
     (let rombank = data AND 0x03;
          ram0000 = drop_bit 2 data AND 0x03
      in
        if ram0000 = 0 then
          (if rombank < 3 then
             on_membank bank1 (set_entry (unat rombank))
               (on_program (unmap_write 0x0000 0x7fff)
                 (on_program (install_read_bank 0x0000 0x7fff bank1) s))
           else if m_cart_rom s \<noteq> None then
             on_membank bank1 (set_entry 6)
               (on_program (unmap_write 0x0000 0x7fff)
                 (on_program (install_read_bank 0x0000 0x7fff bank1) s))
           else on_program (unmap_readwrite 0x0000 0x7fff) s)
        else if ram0000 = 1 then
          on_membank bank1 (set_entry 4)
            (on_program (install_readwrite_bank 0x0000 0x7fff bank1) s)
        else if ram0000 = 2 then
          on_membank bank1 (set_entry 5)
            (on_program (install_readwrite_bank 0x0000 0x7fff bank1) s)
        else if ram0000 = 3 then
          logerror ''0x0000-0x7fff = invalid\<newline>'' s
        else s)"

definition bankswitch_mid :: "uint8_t \<Rightarrow> pc8401a_state \<Rightarrow> pc8401a_state" where
  "bankswitch_mid data s =
     (let ram8000 = drop_bit 4 data AND 0x03
      in
        if ram8000 = 0 then
          on_membank bank3 (set_entry 0)
            (on_program (install_readwrite_bank 0x8000 0xbfff bank3) s)
        else if ram8000 = 1 then
          on_membank bank3 (set_entry 1)
            (on_program (install_readwrite_bank 0x8000 0xbfff bank3) s)
        else if ram8000 = 2 then
          on_membank bank3 (set_entry 2)
            (on_program (install_readwrite_bank 0x8000 0xbfff bank3) s)
        else if ram8000 = 3 then
          (if m_ram_size s > 64 then
             on_membank bank3 (set_entry 3)
               (on_program (install_readwrite_bank 0x8000 0xbfff bank3) s)
           else on_program (unmap_readwrite 0x8000 0xbfff) s)
        else s)"

definition bankswitch_high :: "uint8_t \<Rightarrow> pc8401a_state \<Rightarrow> pc8401a_state" where
  "bankswitch_high data s =
     (if bit data 6 then
        on_membank bank4 (set_entry 1)
          (on_program (unmap_readwrite 0xe000 0xe7ff)
            (on_program (install_readwrite_bank 0xc000 0xdfff bank4) s))
      else
        on_membank bank4 (set_entry 0)
          (on_program (install_readwrite_bank 0xc000 0xe7ff bank4) s))"

definition bankswitch :: "uint8_t \<Rightarrow> pc8401a_state \<Rightarrow> pc8401a_state" where
  "bankswitch data s = bankswitch_high data (bankswitch_mid data (bankswitch_low data s))"

definition mmr_w :: "uint8_t \<Rightarrow> pc8401a_state \<Rightarrow> pc8401a_state" where
  "mmr_w data s = (let s1 = (if data \<noteq> m_mmr s then bankswitch data s else s) in s1\<lparr>m_mmr := data\<rparr>)"

definition mmr_r :: "pc8401a_state \<Rightarrow> uint8_t" where
  "mmr_r s = m_mmr s"

section \<open>RTC lines\<close>

text \<open>The two write handlers pass bits of the data to the RTC's input lines. The read
  handler \<open>rtc_r\<close> returns two output lines of the chip and assigns no member.\<close>

definition rtc_cmd_w :: "uint8_t \<Rightarrow> pc8401a_state \<Rightarrow> pc8401a_state" where
  "rtc_cmd_w data s =
     s\<lparr>m_rtc := (m_rtc s)\<lparr>c0 := bit data 0, c1 := bit data 1, c2 := bit data 2, data_in := bit data 3\<rparr>\<rparr>"

definition rtc_ctrl_w :: "uint8_t \<Rightarrow> pc8401a_state \<Rightarrow> pc8401a_state" where
  "rtc_ctrl_w data s =
     s\<lparr>m_rtc := (m_rtc s)\<lparr>oe := bit data 0, stb := bit data 1, clk := bit data 2\<rparr>\<rparr>"

section \<open>I/O ROM cartridge\<close>

text \<open>\<open>m_io_cart->read_rom\<close> belongs to the cartridge slot device; it is the parameter
  \<open>read_rom\<close>. The handler assigns no member.\<close>

definition io_rom_data_r :: "(offs_t \<Rightarrow> uint8_t) \<Rightarrow> pc8401a_state \<Rightarrow> uint8_t" where
  "io_rom_data_r read_rom s = read_rom (m_io_addr s)"

definition io_rom_addr_w :: "offs_t \<Rightarrow> uint8_t \<Rightarrow> pc8401a_state \<Rightarrow> pc8401a_state" where
  "io_rom_addr_w offset data s =
     (if offset = 0 then
        s\<lparr>m_io_addr := push_bit 16 (ucast (data AND 0x03)) OR (m_io_addr s AND 0xffff)\<rparr>
      else if offset = 1 then
        s\<lparr>m_io_addr := (m_io_addr s AND 0x300ff) OR push_bit 8 (ucast data)\<rparr>
      else if offset = 2 then
        s\<lparr>m_io_addr := (m_io_addr s AND 0x3ff00) OR ucast data\<rparr>
      else s)"

section \<open>Start and reset\<close>

text \<open>The object as constructed: the member initialisers of the class, the address map
  \<open>pc8401a_mem\<close> (every window a read/write bank), banks with no entry configured, and
  the RAM device's size as configured.\<close>

definition pc8401a_mem :: address_space where
  "pc8401a_mem =
     install_readwrite_bank 0xe800 0xffff bank5
       (install_readwrite_bank 0xc000 0xe7ff bank4
         (install_readwrite_bank 0x8000 0xbfff bank3
           (install_readwrite_bank 0x0000 0x7fff bank1
             \<lparr>read_handler = (\<lambda>a. Unmapped), write_handler = (\<lambda>a. Unmapped)\<rparr>)))"

definition constructed :: "nat \<Rightarrow> pc8401a_state" where
  "constructed ram_size =
     \<lparr>m_key_strobe = 0, m_mmr = 0, m_io_addr = 0, m_key_latch = 0, m_key_irq_enable = False,
      m_cart_rom = None, program = pc8401a_mem,
      membank = (\<lambda>b. \<lparr>entries = (\<lambda>n. None), curentry = 0\<rparr>),
      m_maincpu = [],
      m_rtc = \<lparr>cs = False, c0 = False, c1 = False, c2 = False, data_in = False,
               oe = False, stb = False, clk = False\<rparr>,
      m_ram_size = ram_size, errorlog = []\<rparr>"

text \<open>\<open>machine_start\<close>; the argument is what \<open>memregion\<close> finds for the option ROM
  cartridge.\<close>

definition machine_start :: "memory_region option \<Rightarrow> pc8401a_state \<Rightarrow> pc8401a_state" where
  "machine_start region s =
     (let s1 = s\<lparr>m_cart_rom := region\<rparr>;
          s2 = s1\<lparr>m_rtc := (m_rtc s1)\<lparr>cs := True\<rparr>\<rparr>;
          s3 = on_membank bank1 (configure_entries 0 4 (Z80_ROM, 0) 0x8000) s2;
          s4 = on_membank bank1 (configure_entries 4 2 (MAIN_RAM, 0) 0x8000) s3;
          s5 = (if m_cart_rom s4 \<noteq> None
                then on_membank bank1 (configure_entries 6 1 (CART_ROM, 0) 0x8000) s4 else s4);
          s6 = on_membank bank1 (set_entry 0) s5;
          s7 = on_membank bank3 (set_entry 0)
                 (on_membank bank3 (configure_entries 0 5 (MAIN_RAM, 0) 0x4000) s6);
          s8 = on_membank bank4 (set_entry 0)
                 (on_membank bank4 (configure_entry 1 (CRT_RAM, 0))
                   (on_membank bank4 (configure_entry 0 (MAIN_RAM, 0xc000)) s7));
          s9 = on_membank bank5 (set_entry 0)
                 (on_membank bank5 (configure_entry 0 (MAIN_RAM, 0xe800)) s8)
      in bankswitch 0 s9)"

definition machine_reset :: "pc8401a_state \<Rightarrow> pc8401a_state" where
  "machine_reset s = s\<lparr>m_key_irq_enable := False\<rparr>"

text \<open>Power-on: the framework constructs the driver, starts it, then resets it.\<close>

definition power_on :: "nat \<Rightarrow> memory_region option \<Rightarrow> pc8401a_state" where
  "power_on ram_size region = machine_reset (machine_start region (constructed ram_size))"

section \<open>Runs of the machine\<close>

text \<open>What can happen to a running machine, as far as the driver's state goes: a reset, a
  keyboard timer tick with some row readings, or a CPU write to one of the ports of
  \<open>pc8500_io\<close> that has a driver handler (0x10, 0x30, 0x40, 0x70, 0x71, 0xb0 + offset).
  Port reads change nothing.\<close>

datatype event =
    Reset
  | Tick "nat \<Rightarrow> uint8_t"
  | Rtc_cmd_w uint8_t
  | Mmr_w uint8_t
  | Rtc_ctrl_w uint8_t
  | Port70_w uint8_t
  | Port71_w uint8_t
  | Io_rom_addr_w offs_t uint8_t

fun step :: "event \<Rightarrow> pc8401a_state \<Rightarrow> pc8401a_state" where
  "step Reset s = machine_reset s"
| "step (Tick m_io_y) s = keyboard_tick m_io_y s"
| "step (Rtc_cmd_w data) s = rtc_cmd_w data s"
| "step (Mmr_w data) s = mmr_w data s"
| "step (Rtc_ctrl_w data) s = rtc_ctrl_w data s"
| "step (Port70_w data) s = port70_w data s"
| "step (Port71_w data) s = port71_w data s"
| "step (Io_rom_addr_w offset data) s = io_rom_addr_w offset data s"

fun run :: "event list \<Rightarrow> pc8401a_state \<Rightarrow> pc8401a_state" where
  "run [] s = s"
| "run (e # es) s = run es (step e s)"

text \<open>The invariant of the strobe member: it holds 0 or 1.\<close>

definition strobe_is_flag :: "pc8401a_state \<Rightarrow> bool" where
  "strobe_is_flag s = (m_key_strobe s = 0 \<or> m_key_strobe s = 1)"

section \<open>Unfolding rules and frame lemmas\<close>

declare scan_rows.simps [simp del]

lemmas space_defs = install_read_bank_def install_write_bank_def install_readwrite_bank_def
  unmap_read_def unmap_write_def unmap_readwrite_def

lemmas wrapper_defs = on_program_def on_membank_def logerror_def set_input_line_def
  set_input_line_and_vector_def set_entry_def

lemmas bankswitch_defs = bankswitch_def bankswitch_low_def bankswitch_mid_def bankswitch_high_def

text \<open>\<open>bankswitch\<close> touches the address space, the current bank entries and the error log
  only.\<close>

lemma bankswitch_own_members:
  "m_key_strobe (bankswitch data s) = m_key_strobe s"
  "m_mmr (bankswitch data s) = m_mmr s"
  "m_io_addr (bankswitch data s) = m_io_addr s"
  "m_key_latch (bankswitch data s) = m_key_latch s"
  "m_key_irq_enable (bankswitch data s) = m_key_irq_enable s"
  "m_cart_rom (bankswitch data s) = m_cart_rom s"
  "m_maincpu (bankswitch data s) = m_maincpu s"
  "m_rtc (bankswitch data s) = m_rtc s"
  "m_ram_size (bankswitch data s) = m_ram_size s"
  by (simp_all add: bankswitch_defs wrapper_defs Let_def)

lemma bankswitch_entries:
  "entries (membank (bankswitch data s) b) = entries (membank s b)"
  by (simp add: bankswitch_defs wrapper_defs Let_def)

lemma configure_entries_curentry:
  "curentry (configure_entries startentry n base stride b) = curentry b"
  by (induction n arbitrary: startentry base b) (simp_all add: configure_entry_def)

lemma configure_entries_entries:
  "entries (configure_entries startentry n base stride b) k =
     (if startentry \<le> k \<and> k < startentry + n
      then Some (fst base, snd base + (k - startentry) * stride) else entries b k)"
proof (induction n arbitrary: startentry base b)
  case 0
  then show ?case by auto
next
  case (Suc n)
  have shift: "stride + (k - Suc startentry) * stride = (k - startentry) * stride"
    if "Suc startentry \<le> k"
  proof -
    have "k - startentry = Suc (k - Suc startentry)" using that by arith
    then show ?thesis by simp
  qed
  show ?case
    by (auto simp add: Suc.IH configure_entry_def shift)
qed

lemma power_on_members:
  "m_key_strobe (power_on ram_size region) = 0"
  "m_key_latch (power_on ram_size region) = 0"
  "\<not> m_key_irq_enable (power_on ram_size region)"
  "m_mmr (power_on ram_size region) = 0"
  "m_io_addr (power_on ram_size region) = 0"
  "m_cart_rom (power_on ram_size region) = region"
  "m_ram_size (power_on ram_size region) = ram_size"
  "cs (m_rtc (power_on ram_size region))"
  "m_maincpu (power_on ram_size region) = []"
  by (simp_all add: power_on_def machine_start_def machine_reset_def Let_def bankswitch_own_members
      on_membank_def constructed_def)

lemma power_on_bank3_entries:
  "entries (membank (power_on ram_size region) bank3) k =
     (if k < 5 then Some (MAIN_RAM, k * 0x4000) else None)"
  by (simp add: power_on_def machine_start_def machine_reset_def Let_def bankswitch_entries
      on_membank_def set_entry_def configure_entry_def configure_entries_entries constructed_def)

subsection \<open>The low window\<close>

lemma low_window_ranges:
  "(a::address) \<le> 0x7fff \<Longrightarrow> \<not> in_range 0x8000 0xbfff a"
  "(a::address) \<le> 0x7fff \<Longrightarrow> \<not> in_range 0xc000 0xdfff a"
  "(a::address) \<le> 0x7fff \<Longrightarrow> \<not> in_range 0xe000 0xe7ff a"
  "(a::address) \<le> 0x7fff \<Longrightarrow> \<not> in_range 0xc000 0xe7ff a"
  "(a::address) \<le> 0x7fff \<Longrightarrow> in_range 0x0000 0x7fff a"
  by (auto simp: in_range_def word_le_nat_alt)

lemma bankswitch_mid_low_window:
  "a \<le> 0x7fff \<Longrightarrow> read_handler (program (bankswitch_mid data s)) a = read_handler (program s) a"
  "a \<le> 0x7fff \<Longrightarrow> write_handler (program (bankswitch_mid data s)) a = write_handler (program s) a"
  "membank (bankswitch_mid data s) bank1 = membank s bank1"
  "errorlog (bankswitch_mid data s) = errorlog s"
  by (simp_all add: bankswitch_mid_def wrapper_defs space_defs Let_def low_window_ranges)

lemma bankswitch_high_low_window:
  "a \<le> 0x7fff \<Longrightarrow> read_handler (program (bankswitch_high data s)) a = read_handler (program s) a"
  "a \<le> 0x7fff \<Longrightarrow> write_handler (program (bankswitch_high data s)) a = write_handler (program s) a"
  "membank (bankswitch_high data s) bank1 = membank s bank1"
  "errorlog (bankswitch_high data s) = errorlog s"
  by (simp_all add: bankswitch_high_def wrapper_defs space_defs Let_def low_window_ranges)

lemma bankswitch_low_window:
  "a \<le> 0x7fff \<Longrightarrow>
     read_handler (program (bankswitch data s)) a = read_handler (program (bankswitch_low data s)) a"
  "a \<le> 0x7fff \<Longrightarrow>
     write_handler (program (bankswitch data s)) a = write_handler (program (bankswitch_low data s)) a"
  "membank (bankswitch data s) bank1 = membank (bankswitch_low data s) bank1"
  "errorlog (bankswitch data s) = errorlog (bankswitch_low data s)"
  by (simp_all add: bankswitch_def bankswitch_mid_low_window bankswitch_high_low_window)

lemma bankswitch_low_invalid:
  "drop_bit 2 data AND 0x03 = 3 \<Longrightarrow>
     bankswitch_low data s = logerror ''0x0000-0x7fff = invalid\<newline>'' s"
  by (simp add: bankswitch_low_def Let_def)

lemma bankswitch_low_ram0:
  "a \<le> 0x7fff \<Longrightarrow> read_handler (program (bankswitch_low 0x04 s)) a = Bank bank1"
  "a \<le> 0x7fff \<Longrightarrow> write_handler (program (bankswitch_low 0x04 s)) a = Bank bank1"
  "curentry (membank (bankswitch_low 0x04 s) bank1) = 4"
  by (simp_all add: bankswitch_low_def wrapper_defs space_defs Let_def low_window_ranges)

lemma bankswitch_low_rom0:
  "a \<le> 0x7fff \<Longrightarrow> read_handler (program (bankswitch_low 0x00 s)) a = Bank bank1"
  "a \<le> 0x7fff \<Longrightarrow> write_handler (program (bankswitch_low 0x00 s)) a = Unmapped"
  "curentry (membank (bankswitch_low 0x00 s) bank1) = 0"
  by (simp_all add: bankswitch_low_def wrapper_defs space_defs Let_def low_window_ranges)

lemma ram_in_low_window:
  "mmr_w 0x04 (power_on ram_size region) =
     (bankswitch 0x04 (power_on ram_size region))\<lparr>m_mmr := 0x04\<rparr>"
  by (simp add: mmr_w_def power_on_members)

subsection \<open>The mid window\<close>

lemma mid_window_ranges:
  "in_range 0x8000 0xbfff a \<Longrightarrow> \<not> in_range 0xc000 0xdfff a"
  "in_range 0x8000 0xbfff a \<Longrightarrow> \<not> in_range 0xe000 0xe7ff a"
  "in_range 0x8000 0xbfff a \<Longrightarrow> \<not> in_range 0xc000 0xe7ff a"
  "in_range 0x8000 0xbfff a \<Longrightarrow> \<not> in_range 0x0000 0x7fff a"
  by (auto simp: in_range_def word_le_nat_alt)

lemma bankswitch_high_mid_window:
  "in_range 0x8000 0xbfff a \<Longrightarrow>
     read_handler (program (bankswitch_high data s)) a = read_handler (program s) a"
  "in_range 0x8000 0xbfff a \<Longrightarrow>
     write_handler (program (bankswitch_high data s)) a = write_handler (program s) a"
  "membank (bankswitch_high data s) bank3 = membank s bank3"
  by (simp_all add: bankswitch_high_def wrapper_defs space_defs mid_window_ranges)

lemma bankswitch_low_ram_size: "m_ram_size (bankswitch_low data s) = m_ram_size s"
  by (simp add: bankswitch_low_def wrapper_defs Let_def)

lemma bankswitch_mid_cartridge:
  assumes "drop_bit 4 data AND 0x03 = 3" and "in_range 0x8000 0xbfff a"
  shows "read_handler (program (bankswitch_mid data s)) a =
           (if m_ram_size s > 64 then Bank bank3 else Unmapped)"
    and "write_handler (program (bankswitch_mid data s)) a =
           (if m_ram_size s > 64 then Bank bank3 else Unmapped)"
    and "m_ram_size s > 64 \<Longrightarrow> curentry (membank (bankswitch_mid data s) bank3) = 3"
  using assms by (simp_all add: bankswitch_mid_def wrapper_defs space_defs Let_def)

text \<open>What the code does for mid-window source 3, at every RAM size: the test is
  \<open>m_ram->size() > 64\<close>.\<close>

lemma bankswitch_ram_cartridge:
  assumes "drop_bit 4 data AND 0x03 = 3" and "in_range 0x8000 0xbfff a"
  shows "read_handler (program (bankswitch data s)) a =
           (if m_ram_size s > 64 then Bank bank3 else Unmapped)"
    and "write_handler (program (bankswitch data s)) a =
           (if m_ram_size s > 64 then Bank bank3 else Unmapped)"
    and "m_ram_size s > 64 \<Longrightarrow> curentry (membank (bankswitch data s) bank3) = 3"
  using assms
  by (simp_all add: bankswitch_def bankswitch_high_mid_window bankswitch_mid_cartridge
      bankswitch_low_ram_size)

section \<open>Memory mapping register: results\<close>

text \<open>
  C1. A write to the MMR port of the value the register already holds changes nothing at
  all: the installed handlers, the bank entries and the error log are those of before, so
  \<open>bankswitch\<close> has not run. A write of a different value runs \<open>bankswitch\<close> on the new value
  at once and then stores it; bank 4, for one, is then at the entry that bit 6 of the new
  value selects. Either way a following read of the port returns the value written.
\<close>

theorem mmr_w_same_value_is_noop:
  "(data = m_mmr s \<longrightarrow> mmr_w data s = s)
 \<and> (data \<noteq> m_mmr s \<longrightarrow> mmr_w data s = (bankswitch data s)\<lparr>m_mmr := data\<rparr>)
 \<and> (data \<noteq> m_mmr s \<longrightarrow>
      curentry (membank (mmr_w data s) bank4) = (if bit data 6 then 1 else 0))
 \<and> mmr_r (mmr_w data s) = data"
  by (simp add: mmr_w_def mmr_r_def bankswitch_def bankswitch_high_def wrapper_defs)

theorem mmr_w_same_value_is_noop_witness:
  "mmr_w 0 (constructed 65536) = constructed 65536
 \<and> mmr_w 0x40 (constructed 65536) = (bankswitch 0x40 (constructed 65536))\<lparr>m_mmr := 0x40\<rparr>
 \<and> curentry (membank (mmr_w 0x40 (constructed 65536)) bank4) = 1
 \<and> mmr_r (mmr_w 0x40 (constructed 65536)) = 0x40"
proof -
  have mmr: "m_mmr (constructed 65536) = 0" by (simp add: constructed_def)
  show ?thesis
    using mmr_w_same_value_is_noop [of 0 "constructed 65536"]
      mmr_w_same_value_is_noop [of "0x40" "constructed 65536"]
    by (auto simp add: mmr mmr_r_def)
qed

text \<open>
  C2, as the claim states it, fails: with RAM in the low window (MMR 0x04), a write of
  0x0c (low-window source 3) leaves address 0x1000 routed to bank 1 for reads and for
  writes, at entry 4; the window is not unmapped.
\<close>

theorem bankswitch_invalid_low_window_not_unmapped:
  "drop_bit 2 (0x0c :: uint8_t) AND 0x03 = 3
 \<and> read_handler (program (mmr_w 0x0c (mmr_w 0x04 (power_on 65536 None)))) 0x1000 = Bank bank1
 \<and> write_handler (program (mmr_w 0x0c (mmr_w 0x04 (power_on 65536 None)))) 0x1000 = Bank bank1
 \<and> curentry (membank (mmr_w 0x0c (mmr_w 0x04 (power_on 65536 None))) bank1) = 4"
proof -
  have bits: "drop_bit 2 (0x0c :: uint8_t) AND 0x03 = 3" by simp
  have a: "(0x1000 :: address) \<le> 0x7fff" by simp
  have w: "mmr_w 0x0c (mmr_w 0x04 (power_on 65536 None)) =
      (bankswitch 0x0c ((bankswitch 0x04 (power_on 65536 None))\<lparr>m_mmr := 0x04\<rparr>))\<lparr>m_mmr := 0x0c\<rparr>"
    by (simp add: ram_in_low_window) (simp add: mmr_w_def)
  show ?thesis
    by (simp add: w bits a bankswitch_low_window bankswitch_low_invalid [OF bits] logerror_def
        bankswitch_low_ram0)
qed

text \<open>
  C2, amended: when the low-window source field (bits 3:2) of the value is 3, \<open>bankswitch\<close>
  leaves the low window [0x0000, 0x7fff] as it was, handlers and bank 1 alike, and writes
  one diagnostic to the error log. \<open>bankswitch\<close> has no failing path: it returns a state for
  every value.
\<close>

theorem bankswitch_invalid_low_window_keeps_mapping:
  assumes "drop_bit 2 data AND 0x03 = 3" and "a \<le> 0x7fff"
  shows "read_handler (program (bankswitch data s)) a = read_handler (program s) a
       \<and> write_handler (program (bankswitch data s)) a = write_handler (program s) a
       \<and> membank (bankswitch data s) bank1 = membank s bank1
       \<and> errorlog (bankswitch data s) = errorlog s @ [''0x0000-0x7fff = invalid\<newline>'']"
  using assms by (simp add: bankswitch_low_window bankswitch_low_invalid logerror_def)

theorem bankswitch_invalid_low_window_keeps_mapping_witness:
  "drop_bit 2 (0x0c :: uint8_t) AND 0x03 = 3 \<and> (0x1000 :: address) \<le> 0x7fff
 \<and> read_handler (program (bankswitch 0x0c (constructed 65536))) 0x1000 = Bank bank1
 \<and> write_handler (program (bankswitch 0x0c (constructed 65536))) 0x1000 = Bank bank1
 \<and> membank (bankswitch 0x0c (constructed 65536)) bank1 = membank (constructed 65536) bank1
 \<and> errorlog (bankswitch 0x0c (constructed 65536)) = [''0x0000-0x7fff = invalid\<newline>'']"
proof -
  have bits: "drop_bit 2 (0x0c :: uint8_t) AND 0x03 = 3" by simp
  have a: "(0x1000 :: address) \<le> 0x7fff" by simp
  have before: "read_handler (program (constructed 65536)) 0x1000 = Bank bank1"
    "write_handler (program (constructed 65536)) 0x1000 = Bank bank1"
    "errorlog (constructed 65536) = []"
    by (simp_all add: constructed_def pc8401a_mem_def space_defs in_range_def)
  show ?thesis
    using bankswitch_invalid_low_window_keeps_mapping [OF bits a, of "constructed 65536"]
    by (simp add: before)
qed

text \<open>
  C3 at the base configuration. The RAM device is configured with \<open>set_default_size("64K")\<close>
  and reports its size in bytes, 65536; the driver carves its 0x8000-byte and 0x4000-byte
  bank entries out of the same buffer. The test \<open>m_ram->size() > 64\<close> therefore holds with
  no expansion installed: after power-on with 64K of RAM, a write of 0x30 (mid-window
  source 3) routes 0x8000 to bank 3 for reads and writes, at entry 3, which points at
  offset 0xc000 of main RAM. The mid window is not unmapped.
\<close>

theorem bankswitch_ram_cartridge_with_base_ram:
  "drop_bit 4 (0x30 :: uint8_t) AND 0x03 = 3
 \<and> m_ram_size (power_on 65536 None) = 64 * 1024
 \<and> read_handler (program (mmr_w 0x30 (power_on 65536 None))) 0x8000 = Bank bank3
 \<and> write_handler (program (mmr_w 0x30 (power_on 65536 None))) 0x8000 = Bank bank3
 \<and> curentry (membank (mmr_w 0x30 (power_on 65536 None)) bank3) = 3
 \<and> entries (membank (mmr_w 0x30 (power_on 65536 None)) bank3) 3 = Some (MAIN_RAM, 0xc000)"
proof -
  have bits: "drop_bit 4 (0x30 :: uint8_t) AND 0x03 = 3" by simp
  have win: "in_range 0x8000 0xbfff 0x8000" by (simp add: in_range_def)
  have w: "mmr_w 0x30 (power_on 65536 None) =
             (bankswitch 0x30 (power_on 65536 None))\<lparr>m_mmr := 0x30\<rparr>"
    by (simp add: mmr_w_def power_on_members)
  show ?thesis
    using bankswitch_ram_cartridge [OF bits win, of "power_on 65536 None"]
    by (simp add: w power_on_members bankswitch_entries power_on_bank3_entries)
qed

section \<open>Keyboard: the scan loop\<close>

text \<open>Rows that all read idle leave the accumulator alone.\<close>

lemma scan_rows_idle:
  "(\<And>r. row \<le> r \<Longrightarrow> r < 10 \<Longrightarrow> m_io_y r = 0xff) \<Longrightarrow> scan_rows m_io_y row acc = acc"
proof (induction m_io_y row acc rule: scan_rows.induct)
  case (1 m_io_y row strobe latch)
  show ?case
  proof (cases "row < 10")
    case True
    then have idle: "m_io_y row = 0xff" using "1.prems" by simp
    have "scan_rows m_io_y (row + 1) (strobe, latch) = (strobe, latch)"
      using True idle "1.prems" by (intro "1.IH"(2)) simp_all
    then show ?thesis using True idle by (simp add: scan_rows.simps [of m_io_y row])
  next
    case False
    then show ?thesis by (simp add: scan_rows.simps [of m_io_y row])
  qed
qed

lemma scan_rows_strobe_set: "fst (scan_rows m_io_y row (1, latch)) = 1"
proof (induction m_io_y row "(1::int, latch)" arbitrary: latch rule: scan_rows.induct)
  case (1 m_io_y row)
  show ?case
    using "1.hyps" by (simp add: scan_rows.simps [of m_io_y row] Let_def)
qed

lemma scan_rows_strobe_cases:
  "fst (scan_rows m_io_y row (strobe, latch)) = strobe
   \<or> fst (scan_rows m_io_y row (strobe, latch)) = 1"
proof (induction m_io_y row "(strobe, latch)" arbitrary: latch rule: scan_rows.induct)
  case (1 m_io_y row)
  show ?case
    using "1.hyps" by (simp add: scan_rows.simps [of m_io_y row] Let_def scan_rows_strobe_set)
qed

text \<open>The last non-idle row at or after \<open>row\<close> decides the result.\<close>

lemma scan_rows_last:
  "row \<le> r \<Longrightarrow> r < 10 \<Longrightarrow> m_io_y r \<noteq> 0xff \<Longrightarrow>
   (\<And>r'. r < r' \<Longrightarrow> r' < 10 \<Longrightarrow> m_io_y r' = 0xff) \<Longrightarrow>
   scan_rows m_io_y row acc = (1, m_io_y r)"
proof (induction m_io_y row acc rule: scan_rows.induct)
  case (1 m_io_y row strobe latch)
  have lt: "row < 10" using "1.prems" by simp
  show ?case
  proof (cases "row = r")
    case True
    have "scan_rows m_io_y (r + 1) (1, m_io_y r) = (1, m_io_y r)"
      using "1.prems" by (intro scan_rows_idle) simp
    then show ?thesis using True lt "1.prems"(3)
      by (simp add: scan_rows.simps [of m_io_y r])
  next
    case False
    then have le: "row + 1 \<le> r" using "1.prems"(1) by simp
    show ?thesis
    proof (cases "m_io_y row = 0xff")
      case True
      have "scan_rows m_io_y (row + 1) (strobe, latch) = (1, m_io_y r)"
        using lt True le "1.prems" by (intro "1.IH"(2)) simp_all
      then show ?thesis using lt True by (simp add: scan_rows.simps [of m_io_y row])
    next
      case False
      have "scan_rows m_io_y (row + 1) (1, m_io_y row) = (1, m_io_y r)"
        using lt False le "1.prems" by (intro "1.IH"(1)) simp_all
      then show ?thesis using lt False by (simp add: scan_rows.simps [of m_io_y row])
    qed
  qed
qed

lemma scan_rows_hit:
  "row \<le> r \<Longrightarrow> r < 10 \<Longrightarrow> m_io_y r \<noteq> 0xff \<Longrightarrow> fst (scan_rows m_io_y row acc) = 1"
proof (induction m_io_y row acc rule: scan_rows.induct)
  case (1 m_io_y row strobe latch)
  have lt: "row < 10" using "1.prems" by simp
  show ?case
  proof (cases "m_io_y row = 0xff")
    case True
    then have "row \<noteq> r" using "1.prems"(3) by auto
    then have "row + 1 \<le> r" using "1.prems"(1) by simp
    then have "fst (scan_rows m_io_y (row + 1) (strobe, latch)) = 1"
      using lt True "1.prems" by (intro "1.IH"(2)) simp_all
    then show ?thesis using lt True by (simp add: scan_rows.simps [of m_io_y row])
  next
    case False
    then show ?thesis using lt
      by (simp add: scan_rows.simps [of m_io_y row] scan_rows_strobe_set)
  qed
qed

section \<open>Keyboard: ticks and ports\<close>

lemma scan_keyboard_disabled: "\<not> m_key_irq_enable s \<Longrightarrow> scan_keyboard m_io_y s = s"
  by (simp add: scan_keyboard_def)

lemma ticks_disabled: "\<not> m_key_irq_enable s \<Longrightarrow> run (map Tick ms) s = s"
  by (induction ms) (simp_all add: keyboard_tick_def scan_keyboard_disabled)

lemma scan_keyboard_idle:
  "(\<And>r. r < 10 \<Longrightarrow> m_io_y r = 0xff) \<Longrightarrow> scan_keyboard m_io_y s = s"
  by (simp add: scan_keyboard_def scan_rows_idle)

lemma ticks_idle:
  "(\<And>m r. m \<in> set ms \<Longrightarrow> r < 10 \<Longrightarrow> m r = 0xff) \<Longrightarrow> run (map Tick ms) s = s"
  by (induction ms) (simp_all add: keyboard_tick_def scan_keyboard_idle)

text \<open>An enabled scan that finds a non-idle row: the latch takes the scan's result, the
  strobe member becomes 1, and the CPU gets one assert call if the strobe member was 0.\<close>

lemma scan_keyboard_hit:
  assumes "m_key_irq_enable s" "row < 10" "m_io_y row \<noteq> 0xff"
  shows "scan_keyboard m_io_y s =
    s\<lparr>m_key_latch := snd (scan_rows m_io_y 0 (0, m_key_latch s)),
      m_maincpu := m_maincpu s @
        (if m_key_strobe s = 0
         then [Set_input_line_and_vector INPUT_LINE_IRQ0 ASSERT_LINE 0xef] else []),
      m_key_strobe := 1\<rparr>"
proof -
  have "fst (scan_rows m_io_y 0 (0, m_key_latch s)) = 1"
    using assms by (intro scan_rows_hit [of 0 row]) simp_all
  then obtain l where "scan_rows m_io_y 0 (0, m_key_latch s) = (1, l)"
    by (cases "scan_rows m_io_y 0 (0, m_key_latch s)") simp
  then show ?thesis using assms(1)
    by (simp add: scan_keyboard_def set_input_line_and_vector_def)
qed

lemma scan_keyboard_strobed:
  "m_key_strobe s \<noteq> 0 \<Longrightarrow> m_maincpu (scan_keyboard m_io_y s) = m_maincpu s"
  by (simp add: scan_keyboard_def Let_def split: prod.splits if_splits)

lemma keyboard_tick_strobed:
  "m_key_strobe s \<noteq> 0 \<Longrightarrow> m_maincpu (keyboard_tick m_io_y s) = m_maincpu s"
  by (simp add: keyboard_tick_def scan_keyboard_strobed)

lemma scan_keyboard_strobe_1:
  assumes "m_key_strobe s = 1"
  shows "m_key_strobe (scan_keyboard m_io_y s) = 1"
proof -
  have "fst (scan_rows m_io_y 0 (0, m_key_latch s)) = 0
      \<or> fst (scan_rows m_io_y 0 (0, m_key_latch s)) = 1"
    by (rule scan_rows_strobe_cases)
  then show ?thesis using assms
    by (auto simp add: scan_keyboard_def Let_def set_input_line_and_vector_def split: prod.splits)
qed

lemma scan_keyboard_strobe_0:
  assumes "m_key_strobe s = 0"
  shows "m_key_strobe (scan_keyboard m_io_y s) = 0 \<or> m_key_strobe (scan_keyboard m_io_y s) = 1"
proof -
  have "fst (scan_rows m_io_y 0 (0, m_key_latch s)) = 0
      \<or> fst (scan_rows m_io_y 0 (0, m_key_latch s)) = 1"
    by (rule scan_rows_strobe_cases)
  then show ?thesis using assms
    by (auto simp add: scan_keyboard_def Let_def set_input_line_and_vector_def split: prod.splits)
qed

lemma ticks_strobed:
  "m_key_strobe s = 1 \<Longrightarrow>
     m_maincpu (run (map Tick ms) s) = m_maincpu s \<and> m_key_strobe (run (map Tick ms) s) = 1"
proof (induction ms arbitrary: s)
  case Nil
  then show ?case by simp
next
  case (Cons m ms)
  have "m_key_strobe (keyboard_tick m s) = 1" "m_maincpu (keyboard_tick m s) = m_maincpu s"
    using Cons.prems by (simp_all add: keyboard_tick_def scan_keyboard_strobe_1 scan_keyboard_strobed)
  then show ?case using Cons.IH [of "keyboard_tick m s"] by simp
qed

lemma enable_sequence:
  "port71_w 0x18 (port71_w 0x10 s) =
     s\<lparr>m_maincpu := m_maincpu s @ [Set_input_line INPUT_LINE_IRQ0 CLEAR_LINE,
                                    Set_input_line INPUT_LINE_IRQ0 CLEAR_LINE],
       m_key_irq_enable := True, m_key_latch := 0x18\<rparr>"
  by (simp add: port71_w_def set_input_line_def Let_def)

lemma port70_r_odd: "port70_r s = (if odd (m_key_strobe s) then 0x11 else 0x10)"
  by (simp add: port70_r_def and_one_eq mod_2_eq_odd)

lemma step_strobe_is_flag: "strobe_is_flag s \<Longrightarrow> strobe_is_flag (step e s)"
proof (cases e)
  case (Tick m_io_y)
  assume "strobe_is_flag s"
  then show ?thesis
    using scan_keyboard_strobe_0 [of s m_io_y] scan_keyboard_strobe_1 [of s m_io_y] Tick
    by (auto simp add: strobe_is_flag_def keyboard_tick_def)
qed (simp_all add: strobe_is_flag_def machine_reset_def rtc_cmd_w_def rtc_ctrl_w_def mmr_w_def
    bankswitch_own_members port70_w_def port71_w_def set_input_line_def io_rom_addr_w_def Let_def)

lemma run_strobe_is_flag: "strobe_is_flag s \<Longrightarrow> strobe_is_flag (run es s)"
  by (induction es arbitrary: s) (simp_all add: step_strobe_is_flag)

lemma reachable_strobe_is_flag: "strobe_is_flag (run es (power_on ram_size region))"
  by (rule run_strobe_is_flag) (simp add: strobe_is_flag_def power_on_members)

text \<open>A concrete run used below: power-on, the enable sequence, and a tick on which row 3
  reads 0xfb.\<close>

lemma keyboard_tick_after_enable:
  "keyboard_tick (\<lambda>r. if r = 3 then 0xfb else 0xff)
     (port71_w 0x18 (port71_w 0x10 (power_on ram_size region))) =
   (power_on ram_size region)
     \<lparr>m_maincpu := [Set_input_line INPUT_LINE_IRQ0 CLEAR_LINE,
                    Set_input_line INPUT_LINE_IRQ0 CLEAR_LINE,
                    Set_input_line_and_vector INPUT_LINE_IRQ0 ASSERT_LINE 0xef],
      m_key_irq_enable := True, m_key_latch := 0xfb, m_key_strobe := 1\<rparr>"
proof -
  let ?m = "\<lambda>r::nat. if r = 3 then 0xfb else 0xff :: uint8_t"
  let ?e = "port71_w 0x18 (port71_w 0x10 (power_on ram_size region))"
  have en: "m_key_irq_enable ?e" by (simp add: enable_sequence)
  have rows: "scan_rows ?m 0 (0, m_key_latch ?e) = (1, ?m 3)"
    by (rule scan_rows_last [where r = 3]) simp_all
  have "scan_keyboard ?m ?e =
      ?e\<lparr>m_key_latch := snd (scan_rows ?m 0 (0, m_key_latch ?e)),
        m_maincpu := m_maincpu ?e @
          (if m_key_strobe ?e = 0
           then [Set_input_line_and_vector INPUT_LINE_IRQ0 ASSERT_LINE 0xef] else []),
        m_key_strobe := 1\<rparr>"
    using en by (rule scan_keyboard_hit [where row = 3]) simp_all
  then show ?thesis
    by (simp add: keyboard_tick_def rows) (simp add: enable_sequence power_on_members)
qed

section \<open>Keyboard: results\<close>

text \<open>
  C5, as the claim states it, fails. Take the machine after power-on, the enable sequence
  and a tick on which row 3 reads 0xfb: the strobe member is 1, and nothing but a write to
  status port 0x70 clears it. Write the enable sequence again, directly or after a
  \<open>machine_reset\<close>: the enable is set, yet the tick that follows, on which row 3 still reads
  0xfb, sends the CPU no call at all. The line, cleared by the two port writes, stays clear
  and the count of asserts stays at the one of the first tick.
\<close>

theorem keyboard_no_irq_after_enable_with_strobe_set:
  "m_key_irq_enable (run [Port71_w 0x10, Port71_w 0x18,
      Tick (\<lambda>r. if r = 3 then 0xfb else 0xff), Port71_w 0x10, Port71_w 0x18]
      (power_on 65536 None))
 \<and> m_maincpu (run [Port71_w 0x10, Port71_w 0x18,
      Tick (\<lambda>r. if r = 3 then 0xfb else 0xff), Port71_w 0x10, Port71_w 0x18,
      Tick (\<lambda>r. if r = 3 then 0xfb else 0xff)] (power_on 65536 None)) =
    m_maincpu (run [Port71_w 0x10, Port71_w 0x18,
      Tick (\<lambda>r. if r = 3 then 0xfb else 0xff), Port71_w 0x10, Port71_w 0x18]
      (power_on 65536 None))
 \<and> irq0_level (run [Port71_w 0x10, Port71_w 0x18,
      Tick (\<lambda>r. if r = 3 then 0xfb else 0xff), Port71_w 0x10, Port71_w 0x18,
      Tick (\<lambda>r. if r = 3 then 0xfb else 0xff)] (power_on 65536 None)) = CLEAR_LINE
 \<and> irq0_asserts (run [Port71_w 0x10, Port71_w 0x18,
      Tick (\<lambda>r. if r = 3 then 0xfb else 0xff), Port71_w 0x10, Port71_w 0x18,
      Tick (\<lambda>r. if r = 3 then 0xfb else 0xff)] (power_on 65536 None)) = 1
 \<and> m_key_irq_enable (run [Port71_w 0x10, Port71_w 0x18,
      Tick (\<lambda>r. if r = 3 then 0xfb else 0xff), Reset, Port71_w 0x10, Port71_w 0x18]
      (power_on 65536 None))
 \<and> m_maincpu (run [Port71_w 0x10, Port71_w 0x18,
      Tick (\<lambda>r. if r = 3 then 0xfb else 0xff), Reset, Port71_w 0x10, Port71_w 0x18,
      Tick (\<lambda>r. if r = 3 then 0xfb else 0xff)] (power_on 65536 None)) =
    m_maincpu (run [Port71_w 0x10, Port71_w 0x18,
      Tick (\<lambda>r. if r = 3 then 0xfb else 0xff), Reset, Port71_w 0x10, Port71_w 0x18]
      (power_on 65536 None))
 \<and> irq0_level (run [Port71_w 0x10, Port71_w 0x18,
      Tick (\<lambda>r. if r = 3 then 0xfb else 0xff), Reset, Port71_w 0x10, Port71_w 0x18,
      Tick (\<lambda>r. if r = 3 then 0xfb else 0xff)] (power_on 65536 None)) = CLEAR_LINE"
proof -
  let ?k = "\<lambda>r::nat. if r = 3 then 0xfb else 0xff :: uint8_t"
  let ?t = "keyboard_tick ?k (port71_w 0x18 (port71_w 0x10 (power_on 65536 None)))"
  let ?a = "port71_w 0x18 (port71_w 0x10 ?t)"
  let ?b = "port71_w 0x18 (port71_w 0x10 (machine_reset ?t))"
  have a: "m_key_irq_enable ?a" "m_key_strobe ?a = 1"
    "m_maincpu ?a = [Set_input_line INPUT_LINE_IRQ0 CLEAR_LINE,
       Set_input_line INPUT_LINE_IRQ0 CLEAR_LINE,
       Set_input_line_and_vector INPUT_LINE_IRQ0 ASSERT_LINE 0xef,
       Set_input_line INPUT_LINE_IRQ0 CLEAR_LINE, Set_input_line INPUT_LINE_IRQ0 CLEAR_LINE]"
    unfolding keyboard_tick_after_enable by (simp_all add: enable_sequence)
  have b: "m_key_irq_enable ?b" "m_key_strobe ?b = 1"
    "m_maincpu ?b = [Set_input_line INPUT_LINE_IRQ0 CLEAR_LINE,
       Set_input_line INPUT_LINE_IRQ0 CLEAR_LINE,
       Set_input_line_and_vector INPUT_LINE_IRQ0 ASSERT_LINE 0xef,
       Set_input_line INPUT_LINE_IRQ0 CLEAR_LINE, Set_input_line INPUT_LINE_IRQ0 CLEAR_LINE]"
    unfolding keyboard_tick_after_enable by (simp_all add: enable_sequence machine_reset_def)
  have tick_a: "m_maincpu (keyboard_tick ?k ?a) = m_maincpu ?a"
    by (rule keyboard_tick_strobed) (simp add: a)
  have tick_b: "m_maincpu (keyboard_tick ?k ?b) = m_maincpu ?b"
    by (rule keyboard_tick_strobed) (simp add: b)
  have level: "irq0_level (keyboard_tick ?k ?a) = CLEAR_LINE"
    "irq0_asserts (keyboard_tick ?k ?a) = 1"
    "irq0_level (keyboard_tick ?k ?b) = CLEAR_LINE"
    by (simp_all add: irq0_level_def irq0_asserts_def tick_a tick_b a b)
  show ?thesis
    by (simp add: tick_a tick_b level a b)
qed

text \<open>
  C5, amended. Take any state and write 0x10, then 0x18, to data port 0x71: the interrupt
  enable is set. Ticks on which every row reads idle (0xff) then change nothing. On the
  first tick on which some row reads a non-idle value the CPU receives exactly one call,
  asserting IRQ0 with vector 0xef, when the strobe member was clear before the sequence,
  and no call when it was already set: the count of asserts goes up by one, or not at all.
  After that tick bit 0 of status port 0x70 reads 1. Whatever the rows read on later ticks,
  the CPU receives no further call and bit 0 of the status stays 1.
\<close>

theorem keyboard_irq_edge_after_enable:
  fixes s :: pc8401a_state
    and idle later :: "(nat \<Rightarrow> uint8_t) list"
    and m_io_y :: "nat \<Rightarrow> uint8_t"
  assumes idle: "\<forall>m \<in> set idle. \<forall>r < 10. m r = 0xff"
    and hit: "row < 10" "m_io_y row \<noteq> 0xff"
  defines "s1 \<equiv> port71_w 0x18 (port71_w 0x10 s)"
  defines "s2 \<equiv> run (map Tick idle) s1"
  defines "s3 \<equiv> keyboard_tick m_io_y s2"
  defines "s4 \<equiv> run (map Tick later) s3"
  shows "m_key_irq_enable s1
       \<and> s2 = s1
       \<and> m_maincpu s3 = m_maincpu s2 @
           (if m_key_strobe s = 0
            then [Set_input_line_and_vector INPUT_LINE_IRQ0 ASSERT_LINE 0xef] else [])
       \<and> irq0_asserts s3 = irq0_asserts s2 + (if m_key_strobe s = 0 then 1 else 0)
       \<and> bit (port70_r s3) 0
       \<and> m_maincpu s4 = m_maincpu s3
       \<and> irq0_asserts s4 = irq0_asserts s3
       \<and> bit (port70_r s4) 0"
proof -
  have en: "m_key_irq_enable s1" and st1: "m_key_strobe s1 = m_key_strobe s"
    by (simp_all add: s1_def enable_sequence)
  have s2: "s2 = s1" unfolding s2_def using idle by (intro ticks_idle) simp
  have s3: "s3 = s1\<lparr>m_key_latch := snd (scan_rows m_io_y 0 (0, m_key_latch s1)),
      m_maincpu := m_maincpu s1 @
        (if m_key_strobe s1 = 0
         then [Set_input_line_and_vector INPUT_LINE_IRQ0 ASSERT_LINE 0xef] else []),
      m_key_strobe := 1\<rparr>"
    unfolding s3_def s2 keyboard_tick_def using en hit by (rule scan_keyboard_hit)
  have st3: "m_key_strobe s3 = 1" by (simp add: s3)
  have s4: "m_maincpu s4 = m_maincpu s3 \<and> m_key_strobe s4 = 1"
    unfolding s4_def using st3 by (rule ticks_strobed)
  show ?thesis using en s2 s4 st3 st1
    by (simp add: port70_r_odd irq0_asserts_def) (simp add: s3)
qed

theorem keyboard_irq_edge_after_enable_witness:
  "m_key_irq_enable (port71_w 0x18 (port71_w 0x10 (power_on 65536 None)))
 \<and> m_maincpu (keyboard_tick (\<lambda>r. if r = 3 then 0xfb else 0xff)
      (run (map Tick [\<lambda>r. 0xff]) (port71_w 0x18 (port71_w 0x10 (power_on 65536 None))))) =
    [Set_input_line INPUT_LINE_IRQ0 CLEAR_LINE, Set_input_line INPUT_LINE_IRQ0 CLEAR_LINE,
     Set_input_line_and_vector INPUT_LINE_IRQ0 ASSERT_LINE 0xef]
 \<and> bit (port70_r (keyboard_tick (\<lambda>r. if r = 3 then 0xfb else 0xff)
      (run (map Tick [\<lambda>r. 0xff]) (port71_w 0x18 (port71_w 0x10 (power_on 65536 None)))))) 0
 \<and> m_maincpu (run (map Tick [\<lambda>r. if r = 3 then 0xfb else 0xff, \<lambda>r. 0xff])
      (keyboard_tick (\<lambda>r. if r = 3 then 0xfb else 0xff)
        (run (map Tick [\<lambda>r. 0xff]) (port71_w 0x18 (port71_w 0x10 (power_on 65536 None)))))) =
    [Set_input_line INPUT_LINE_IRQ0 CLEAR_LINE, Set_input_line INPUT_LINE_IRQ0 CLEAR_LINE,
     Set_input_line_and_vector INPUT_LINE_IRQ0 ASSERT_LINE 0xef]"
proof -
  have calls: "m_maincpu (port71_w 0x18 (port71_w 0x10 (power_on 65536 None))) =
      [Set_input_line INPUT_LINE_IRQ0 CLEAR_LINE, Set_input_line INPUT_LINE_IRQ0 CLEAR_LINE]"
    by (simp add: enable_sequence power_on_members)
  have clear: "m_key_strobe (power_on 65536 None) = 0" by (simp add: power_on_members)
  show ?thesis
    using keyboard_irq_edge_after_enable [where idle = "[\<lambda>r. 0xff]" and row = 3
        and m_io_y = "\<lambda>r. if r = 3 then 0xfb else 0xff" and s = "power_on 65536 None"
        and later = "[\<lambda>r. if r = 3 then 0xfb else 0xff, \<lambda>r. 0xff]"]
    by (elim meta_impE conjE) (simp_all add: calls clear)
qed

text \<open>
  C6. While the interrupt enable is false, any sequence of ticks, whatever the rows read,
  leaves the strobe member, the latched row data and the list of calls received by the CPU
  as they were, and the enable stays false.
\<close>

theorem ticks_while_disabled_change_nothing:
  assumes "\<not> m_key_irq_enable s"
  shows "m_key_strobe (run (map Tick ms) s) = m_key_strobe s
       \<and> m_key_latch (run (map Tick ms) s) = m_key_latch s
       \<and> m_maincpu (run (map Tick ms) s) = m_maincpu s
       \<and> \<not> m_key_irq_enable (run (map Tick ms) s)"
  using assms by (simp add: ticks_disabled)

theorem ticks_while_disabled_change_nothing_witness:
  "\<not> m_key_irq_enable (power_on 65536 None)
 \<and> m_key_strobe (run (map Tick [\<lambda>r. if r = 3 then 0xfb else 0xff, \<lambda>r. 0x00])
      (power_on 65536 None)) = 0
 \<and> m_key_latch (run (map Tick [\<lambda>r. if r = 3 then 0xfb else 0xff, \<lambda>r. 0x00])
      (power_on 65536 None)) = 0
 \<and> m_maincpu (run (map Tick [\<lambda>r. if r = 3 then 0xfb else 0xff, \<lambda>r. 0x00])
      (power_on 65536 None)) = []"
proof -
  have off: "\<not> m_key_irq_enable (power_on 65536 None)" by (simp add: power_on_members)
  show ?thesis
    using ticks_while_disabled_change_nothing [OF off,
        of "[\<lambda>r. if r = 3 then 0xfb else 0xff, \<lambda>r. 0x00]"] off
    by (simp add: power_on_members)
qed

text \<open>
  C8. In every state the machine can reach from power-on by resets, ticks and port writes,
  a read of status port 0x70 returns 0x11 when the strobe member is set and 0x10 when it
  is clear: bit 4 is 1, bit 0 is the strobe flag, and bits 1, 2, 3, 5, 6 and 7 are 0.
\<close>

theorem port70_r_status_bits:
  "port70_r (run es (power_on ram_size region)) =
     (if m_key_strobe (run es (power_on ram_size region)) \<noteq> 0 then 0x11 else 0x10)
 \<and> port70_r (run es (power_on ram_size region)) AND 0x10 = 0x10
 \<and> bit (port70_r (run es (power_on ram_size region))) 0 =
     (m_key_strobe (run es (power_on ram_size region)) \<noteq> 0)
 \<and> port70_r (run es (power_on ram_size region)) AND 0xee = 0"
proof -
  have "strobe_is_flag (run es (power_on ram_size region))"
    by (rule reachable_strobe_is_flag)
  then show ?thesis
    by (auto simp add: strobe_is_flag_def port70_r_odd)
qed

theorem port70_r_status_bits_witness:
  "port70_r (run [Port71_w 0x10, Port71_w 0x18, Tick (\<lambda>r. if r = 3 then 0xfb else 0xff)]
      (power_on 65536 None)) = 0x11
 \<and> port70_r (run [Port71_w 0x10, Port71_w 0x18, Tick (\<lambda>r. if r = 3 then 0xfb else 0xff),
      Port70_w 0] (power_on 65536 None)) = 0x10"
proof -
  have en: "m_key_irq_enable (port71_w 0x18 (port71_w 0x10 (power_on 65536 None)))"
    by (simp add: enable_sequence)
  have strobe: "m_key_strobe (scan_keyboard (\<lambda>r. if r = 3 then 0xfb else 0xff)
      (port71_w 0x18 (port71_w 0x10 (power_on 65536 None)))) = 1"
    using en by (simp add: scan_keyboard_hit [where row = 3])
  show ?thesis
    using port70_r_status_bits [of "[Port71_w 0x10, Port71_w 0x18,
          Tick (\<lambda>r. if r = 3 then 0xfb else 0xff)]" 65536 None]
      port70_r_status_bits [of "[Port71_w 0x10, Port71_w 0x18,
          Tick (\<lambda>r. if r = 3 then 0xfb else 0xff), Port70_w 0]" 65536 None]
    by (simp add: keyboard_tick_def strobe port70_w_def)
qed

text \<open>
  C9. A write of any byte \<open>b\<close> to data port 0x71 stores \<open>b\<close> in the row latch, whatever the
  latch held and whatever \<open>b\<close> is, so that a read of port 0x71 right after returns \<open>b\<close>; and
  it sends the CPU one call that clears IRQ0, which leaves the line clear.
\<close>

theorem port71_w_overwrites_latch_and_clears_irq:
  "m_key_latch (port71_w b s) = b
 \<and> port71_r (port71_w b s) = b
 \<and> m_maincpu (port71_w b s) = m_maincpu s @ [Set_input_line INPUT_LINE_IRQ0 CLEAR_LINE]
 \<and> irq0_level (port71_w b s) = CLEAR_LINE"
  by (simp add: port71_w_def port71_r_def set_input_line_def irq0_level_def Let_def)

text \<open>
  C10. On an enabled scan, the row latch afterwards holds the raw byte of the
  highest-numbered row that reads a non-idle value, however many lower rows are non-idle
  too: the rows are read from 0 to 9 and each non-idle row overwrites the latch.
\<close>

theorem scan_keyboard_latches_highest_row:
  assumes "m_key_irq_enable s" and "r < 10" and "m_io_y r \<noteq> 0xff"
    and "\<forall>r'. r < r' \<and> r' < 10 \<longrightarrow> m_io_y r' = 0xff"
  shows "m_key_latch (scan_keyboard m_io_y s) = m_io_y r"
proof -
  have "scan_rows m_io_y 0 (0, m_key_latch s) = (1, m_io_y r)"
    using assms by (intro scan_rows_last) simp_all
  then show ?thesis using assms(1)
    by (simp add: scan_keyboard_def set_input_line_and_vector_def Let_def)
qed

theorem scan_keyboard_latches_highest_row_witness:
  "m_key_irq_enable (port71_w 0x18 (port71_w 0x10 (power_on 65536 None)))
 \<and> m_key_latch (scan_keyboard (\<lambda>r. if r = 2 then 0xfe else if r = 7 then 0x7f else 0xff)
      (port71_w 0x18 (port71_w 0x10 (power_on 65536 None)))) = 0x7f"
proof -
  have en: "m_key_irq_enable (port71_w 0x18 (port71_w 0x10 (power_on 65536 None)))"
    by (simp add: enable_sequence)
  show ?thesis
    using scan_keyboard_latches_highest_row [where r = 7
        and m_io_y = "\<lambda>r. if r = 2 then 0xfe else if r = 7 then 0x7f else 0xff"
        and s = "port71_w 0x18 (port71_w 0x10 (power_on 65536 None))"] en
    by auto
qed

section \<open>Start and reset: results\<close>

text \<open>
  C4, as the claim states it, fails. Take the machine after power-on, the enable sequence,
  a tick on which row 3 reads 0xfb, and a write of 0x04 to the MMR. After \<open>machine_reset\<close>
  the strobe member is still 1, the latch still holds 0xfb, and the low window is still
  writable RAM at bank 1 entry 4, where a resolution with value 0 would have made it
  read-only ROM at entry 0.
\<close>

theorem machine_reset_keeps_strobe_latch_and_banks:
  "m_key_strobe (machine_reset (run [Port71_w 0x10, Port71_w 0x18,
      Tick (\<lambda>r. if r = 3 then 0xfb else 0xff), Mmr_w 0x04] (power_on 65536 None))) = 1
 \<and> m_key_latch (machine_reset (run [Port71_w 0x10, Port71_w 0x18,
      Tick (\<lambda>r. if r = 3 then 0xfb else 0xff), Mmr_w 0x04] (power_on 65536 None))) = 0xfb
 \<and> write_handler (program (machine_reset (run [Port71_w 0x10, Port71_w 0x18,
      Tick (\<lambda>r. if r = 3 then 0xfb else 0xff), Mmr_w 0x04] (power_on 65536 None)))) 0x1000
     = Bank bank1
 \<and> curentry (membank (machine_reset (run [Port71_w 0x10, Port71_w 0x18,
      Tick (\<lambda>r. if r = 3 then 0xfb else 0xff), Mmr_w 0x04] (power_on 65536 None))) bank1) = 4
 \<and> write_handler (program (bankswitch 0 (run [Port71_w 0x10, Port71_w 0x18,
      Tick (\<lambda>r. if r = 3 then 0xfb else 0xff), Mmr_w 0x04] (power_on 65536 None)))) 0x1000
     = Unmapped
 \<and> curentry (membank (bankswitch 0 (run [Port71_w 0x10, Port71_w 0x18,
      Tick (\<lambda>r. if r = 3 then 0xfb else 0xff), Mmr_w 0x04] (power_on 65536 None))) bank1) = 0"
proof -
  let ?t = "keyboard_tick (\<lambda>r. if r = 3 then 0xfb else 0xff)
     (port71_w 0x18 (port71_w 0x10 (power_on 65536 None)))"
  have a: "(0x1000 :: address) \<le> 0x7fff" by simp
  have t: "m_mmr ?t = 0" "m_key_strobe ?t = 1" "m_key_latch ?t = 0xfb"
    by (simp_all add: keyboard_tick_after_enable power_on_members)
  have w: "mmr_w 0x04 ?t = (bankswitch 0x04 ?t)\<lparr>m_mmr := 0x04\<rparr>"
    by (simp add: mmr_w_def t)
  have r: "run [Port71_w 0x10, Port71_w 0x18, Tick (\<lambda>r. if r = 3 then 0xfb else 0xff),
      Mmr_w 0x04] (power_on 65536 None) = (bankswitch 0x04 ?t)\<lparr>m_mmr := 0x04\<rparr>"
    by (simp add: w)
  show ?thesis
    unfolding r
    by (simp add: machine_reset_def bankswitch_own_members t a bankswitch_low_window
        bankswitch_low_ram0 bankswitch_low_rom0)
qed

text \<open>
  C4, amended: \<open>machine_reset\<close> sets the keyboard interrupt enable to false and changes
  nothing else; the strobe member, the latched row data, the stored MMR value, the address
  space, the banks and the RTC lines keep their values. It is \<open>machine_start\<close>, run once
  at power-on before the first reset, that asserts the RTC's chip select and resolves the
  banks with value 0 without touching the stored MMR value: the address space is that of
  \<open>bankswitch 0\<close> and every bank is at entry 0. In the power-on state the enable is false,
  the strobe member and the latch are 0, chip select is asserted and the MMR is 0.
\<close>

theorem machine_reset_only_disables_keyboard:
  "machine_reset s = s\<lparr>m_key_irq_enable := False\<rparr>
 \<and> \<not> m_key_irq_enable (machine_reset s)
 \<and> m_key_strobe (machine_reset s) = m_key_strobe s
 \<and> m_key_latch (machine_reset s) = m_key_latch s
 \<and> m_mmr (machine_reset s) = m_mmr s
 \<and> program (machine_reset s) = program s
 \<and> membank (machine_reset s) = membank s
 \<and> m_rtc (machine_reset s) = m_rtc s
 \<and> cs (m_rtc (machine_start region s))
 \<and> m_mmr (machine_start region s) = m_mmr s
 \<and> program (machine_start region s) = program (bankswitch 0 s)
 \<and> curentry (membank (machine_start region s) b) = 0
 \<and> \<not> m_key_irq_enable (power_on ram_size region)
 \<and> m_key_strobe (power_on ram_size region) = 0
 \<and> m_key_latch (power_on ram_size region) = 0
 \<and> cs (m_rtc (power_on ram_size region))
 \<and> m_mmr (power_on ram_size region) = 0"
proof -
  have reset: "machine_reset s = s\<lparr>m_key_irq_enable := False\<rparr>"
    by (simp add: machine_reset_def)
  have start: "cs (m_rtc (machine_start region s))" "m_mmr (machine_start region s) = m_mmr s"
    by (simp_all add: machine_start_def Let_def bankswitch_own_members on_membank_def)
  have space: "program (machine_start region s) = program (bankswitch 0 s)"
    by (simp add: machine_start_def Let_def bankswitch_defs wrapper_defs)
  have entry: "curentry (membank (machine_start region s) b) = 0"
    by (cases b)
      (simp_all add: machine_start_def Let_def bankswitch_defs wrapper_defs
        configure_entries_curentry configure_entry_def)
  show ?thesis
    by (simp add: reset start space entry power_on_members)
qed

theorem machine_reset_only_disables_keyboard_witness:
  "machine_reset (port71_w 0x18 (port71_w 0x10 (power_on 65536 None))) =
     (port71_w 0x18 (port71_w 0x10 (power_on 65536 None)))\<lparr>m_key_irq_enable := False\<rparr>
 \<and> m_key_latch (machine_reset (port71_w 0x18 (port71_w 0x10 (power_on 65536 None)))) = 0x18
 \<and> curentry (membank (machine_start None (constructed 65536)) bank1) = 0
 \<and> m_key_strobe (power_on 65536 None) = 0"
  using machine_reset_only_disables_keyboard
    [where s = "port71_w 0x18 (port71_w 0x10 (power_on 65536 None))" and region = None
      and b = bank1 and ram_size = 65536]
    machine_reset_only_disables_keyboard
    [where s = "constructed 65536" and region = None and b = bank1 and ram_size = 65536]
  by (simp add: enable_sequence)

section \<open>I/O ROM cartridge: results\<close>

lemma mask_300ff: "(0x300ff :: uint32_t) = mask 8 OR push_bit 16 (mask 2)"
  by (simp add: mask_numeral)

lemma mask_3ff00: "(0x3ff00 :: uint32_t) = push_bit 8 (mask 10)"
  by (simp add: mask_numeral)

lemma mask_ffff: "(0xffff :: uint32_t) = mask 16"
  by (simp add: mask_numeral)

lemma mask_ff00: "(0xff00 :: uint32_t) = push_bit 8 (mask 8)"
  by (simp add: mask_numeral)

lemma mask_30000: "(0x30000 :: uint32_t) = push_bit 16 (mask 2)"
  by (simp add: mask_numeral)

lemma mask_3ffff: "(0x3ffff :: uint32_t) = mask 18"
  by (simp add: mask_numeral)

lemma mask_ff: "(0xff :: uint32_t) = mask 8"
  by (simp add: mask_numeral)

lemma mask_3: "(0x03 :: uint8_t) = mask 2"
  by (simp add: mask_numeral)

lemma fragment0:
  fixes a :: uint32_t and d :: uint8_t
  shows "(push_bit 16 (ucast (d AND 0x03)) OR (a AND 0xffff)) AND 0xffff = a AND 0xffff"
    and "(push_bit 16 (ucast (d AND 0x03)) OR (a AND 0xffff)) AND 0x30000 =
           push_bit 16 (ucast (d AND 0x03))"
    and "(push_bit 16 (ucast (d AND 0x03)) OR (a AND 0xffff)) AND 0x3ffff =
           push_bit 16 (ucast (d AND 0x03)) OR (a AND 0xffff)"
  unfolding mask_ffff mask_30000 mask_3ffff mask_3
  by (rule bit_eqI, auto simp: bit_simps dest: bit_imp_le_length)+

lemma fragment1:
  fixes a :: uint32_t and d :: uint8_t
  shows "((a AND 0x300ff) OR push_bit 8 (ucast d)) AND 0x300ff = a AND 0x300ff"
    and "((a AND 0x300ff) OR push_bit 8 (ucast d)) AND 0xff00 = push_bit 8 (ucast d)"
    and "((a AND 0x300ff) OR push_bit 8 (ucast d)) AND 0x3ffff =
           (a AND 0x300ff) OR push_bit 8 (ucast d)"
  unfolding mask_300ff mask_ff00 mask_3ffff
  by (rule bit_eqI, auto simp: bit_simps dest: bit_imp_le_length)+

lemma fragment2:
  fixes a :: uint32_t and d :: uint8_t
  shows "((a AND 0x3ff00) OR ucast d) AND 0x3ff00 = a AND 0x3ff00"
    and "((a AND 0x3ff00) OR ucast d) AND 0xff = ucast d"
    and "((a AND 0x3ff00) OR ucast d) AND 0x3ffff = (a AND 0x3ff00) OR ucast d"
  unfolding mask_3ff00 mask_ff mask_3ffff
  by (rule bit_eqI, auto simp: bit_simps dest: bit_imp_le_length)+

text \<open>
  C7. From any prior address, writing 0x01 at offset 0, 0x23 at offset 1 and 0x45 at
  offset 2 leaves the address at 0x12345. A write at offset 0 puts the low two bits of the
  data in bits 17-16 and keeps bits 15-0; a write at offset 1 puts the data in bits 15-8 and
  keeps bits 17-16 and 7-0; a write at offset 2 puts the data in bits 7-0 and keeps bits
  17-8; each leaves the address within 18 bits and changes no other member. A write at
  offset 3 changes nothing. The data read returns what the cartridge slot's \<open>read_rom\<close>
  gives at the current address; the read handler is a function of the state and assigns no
  member, so the address after a read is the address before it.
\<close>

theorem io_rom_address_fragments:
  "m_io_addr (io_rom_addr_w 2 0x45 (io_rom_addr_w 1 0x23 (io_rom_addr_w 0 0x01 s))) = 0x12345
 \<and> m_io_addr (io_rom_addr_w 0 d s) AND 0xffff = m_io_addr s AND 0xffff
 \<and> m_io_addr (io_rom_addr_w 0 d s) AND 0x30000 = push_bit 16 (ucast (d AND 0x03))
 \<and> m_io_addr (io_rom_addr_w 0 d s) AND 0x3ffff = m_io_addr (io_rom_addr_w 0 d s)
 \<and> m_io_addr (io_rom_addr_w 1 d s) AND 0x300ff = m_io_addr s AND 0x300ff
 \<and> m_io_addr (io_rom_addr_w 1 d s) AND 0xff00 = push_bit 8 (ucast d)
 \<and> m_io_addr (io_rom_addr_w 1 d s) AND 0x3ffff = m_io_addr (io_rom_addr_w 1 d s)
 \<and> m_io_addr (io_rom_addr_w 2 d s) AND 0x3ff00 = m_io_addr s AND 0x3ff00
 \<and> m_io_addr (io_rom_addr_w 2 d s) AND 0xff = ucast d
 \<and> m_io_addr (io_rom_addr_w 2 d s) AND 0x3ffff = m_io_addr (io_rom_addr_w 2 d s)
 \<and> io_rom_addr_w offset d s = s\<lparr>m_io_addr := m_io_addr (io_rom_addr_w offset d s)\<rparr>
 \<and> io_rom_addr_w 3 d s = s
 \<and> io_rom_data_r read_rom s = read_rom (m_io_addr s)"
proof -
  have seq: "m_io_addr (io_rom_addr_w 2 0x45 (io_rom_addr_w 1 0x23 (io_rom_addr_w 0 0x01 s))) =
      0x12345"
    by (simp add: io_rom_addr_w_def) (simp add: word_ao_dist and.assoc)
  have w0: "m_io_addr (io_rom_addr_w 0 d s) =
      push_bit 16 (ucast (d AND 0x03)) OR (m_io_addr s AND 0xffff)"
    by (simp add: io_rom_addr_w_def)
  have w1: "m_io_addr (io_rom_addr_w 1 d s) = (m_io_addr s AND 0x300ff) OR push_bit 8 (ucast d)"
    by (simp add: io_rom_addr_w_def)
  have w2: "m_io_addr (io_rom_addr_w 2 d s) = (m_io_addr s AND 0x3ff00) OR ucast d"
    by (simp add: io_rom_addr_w_def)
  have frame: "io_rom_addr_w offset d s = s\<lparr>m_io_addr := m_io_addr (io_rom_addr_w offset d s)\<rparr>"
    by (simp add: io_rom_addr_w_def)
  have w3: "io_rom_addr_w 3 d s = s"
    by (simp add: io_rom_addr_w_def)
  have rd: "io_rom_data_r read_rom s = read_rom (m_io_addr s)"
    by (simp add: io_rom_data_r_def)
  show ?thesis
    unfolding w0 w1 w2
    using seq frame w3 rd by (simp only: fragment0 fragment1 fragment2 simp_thms)
qed

theorem io_rom_address_fragments_witness:
  "m_io_addr (io_rom_addr_w 2 0x45 (io_rom_addr_w 1 0x23 (io_rom_addr_w 0 0x01
      (io_rom_addr_w 1 0xff (io_rom_addr_w 0 0xff (power_on 65536 None)))))) = 0x12345
 \<and> io_rom_data_r (\<lambda>a. ucast a) (io_rom_addr_w 2 0x45 (power_on 65536 None)) = 0x45"
  using io_rom_address_fragments [of "io_rom_addr_w 1 0xff (io_rom_addr_w 0 0xff (power_on 65536 None))"]
    io_rom_address_fragments [of "io_rom_addr_w 2 0x45 (power_on 65536 None)" _ _ "\<lambda>a. ucast a"]
  by (simp add: io_rom_addr_w_def power_on_members)

end
